theory Spec2Isabelle
  imports Complex_Main "HOL-Library.Log_Nat"
begin

section \<open>JavaScript numbers\<close>

text \<open>
  A JavaScript number is an IEEE 754 binary64 value. A finite one is represented by the
  rational it denotes; the two infinities and NaN are separate values. The sign of a zero
  is not represented: the source divides only by the literal \<open>1000\<close>, and the last
  operation of the price computation adds a positive constant, so the sign of a zero
  never reaches a result.
\<close>

datatype jsnum = Fin rat | PosInf | NegInf | NaN

definition pow2 :: "int \<Rightarrow> rat" where
  "pow2 k = (if 0 \<le> k then 2 ^ nat k else 1 / 2 ^ nat (- k))"

text \<open>The binary exponent \<open>\<lfloor>log\<^sub>2 \<bar>x\<bar>\<rfloor>\<close> of a rational other than zero.\<close>

definition ilog2 :: "rat \<Rightarrow> int" where
  "ilog2 x = (let (p, q) = quotient_of x; d = bitlen \<bar>p\<bar> - bitlen q
              in if pow2 d \<le> \<bar>x\<bar> then d else d - 1)"

definition round_half_even :: "rat \<Rightarrow> int" where
  "round_half_even t = (let f = \<lfloor>t\<rfloor>; r = t - of_int f
     in if r < 1 / 2 then f else if 1 / 2 < r then f + 1 else if even f then f else f + 1)"

text \<open>
  Rounding to the nearest binary64 value, ties to even. The value is scaled so that its
  significand \<open>n\<close> is an integer of 53 bits; exponents start at \<open>-1022\<close> (below it the
  spacing stays \<open>2\<^sup>-\<^sup>1\<^sup>0\<^sup>7\<^sup>4\<close>, the subnormal range). Rounding gives \<open>\<bar>n\<bar> \<le> 2\<^sup>5\<^sup>3\<close>, so
  the result \<open>n \<sqdot> 2\<^sup>e\<^sup>-\<^sup>5\<^sup>2\<close> reaches \<open>2\<^sup>1\<^sup>0\<^sup>2\<^sup>4\<close>, and is an infinity, exactly when \<open>e \<ge> 1024\<close>
  or \<open>e = 1023\<close> and the significand was rounded up to \<open>2\<^sup>5\<^sup>3\<close>.
\<close>

definition to_double :: "rat \<Rightarrow> jsnum" where
  "to_double x = (if x = 0 then Fin 0 else
     let e = max (ilog2 x) (- 1022);
         n = round_half_even (x / pow2 (e - 52))
     in if 1024 \<le> e \<or> (e = 1023 \<and> \<bar>n\<bar> = 2 ^ 53) then (if 0 < x then PosInf else NegInf)
        else Fin (of_int n * pow2 (e - 52)))"

text \<open>A numeric literal of the source denotes the binary64 value nearest to it.\<close>

definition js_lit :: "rat \<Rightarrow> jsnum" where
  "js_lit r = to_double r"

fun js_add :: "jsnum \<Rightarrow> jsnum \<Rightarrow> jsnum" where
  "js_add NaN y = NaN"
| "js_add x NaN = NaN"
| "js_add (Fin a) (Fin b) = to_double (a + b)"
| "js_add (Fin a) y = y"
| "js_add x (Fin b) = x"
| "js_add x y = (if x = y then x else NaN)"

fun js_mul :: "jsnum \<Rightarrow> jsnum \<Rightarrow> jsnum" where
  "js_mul NaN y = NaN"
| "js_mul x NaN = NaN"
| "js_mul (Fin a) (Fin b) = to_double (a * b)"
| "js_mul (Fin a) y =
     (if a = 0 then NaN else if (0 < a) = (y = PosInf) then PosInf else NegInf)"
| "js_mul x (Fin b) =
     (if b = 0 then NaN else if (0 < b) = (x = PosInf) then PosInf else NegInf)"
| "js_mul x y = (if x = y then PosInf else NegInf)"

fun js_div :: "jsnum \<Rightarrow> jsnum \<Rightarrow> jsnum" where
  "js_div NaN y = NaN"
| "js_div x NaN = NaN"
| "js_div (Fin a) (Fin b) =
     (if b = 0 then (if a = 0 then NaN else if 0 < a then PosInf else NegInf)
      else to_double (a / b))"
| "js_div (Fin a) y = Fin 0"
| "js_div x (Fin b) = (if (0 \<le> b) = (x = PosInf) then PosInf else NegInf)"
| "js_div x y = NaN"

text \<open>\<open>ToNumber\<close>: \<open>undefined\<close> (here \<open>None\<close>) becomes NaN.\<close>

definition to_number :: "jsnum option \<Rightarrow> jsnum" where
  "to_number v = (case v of None \<Rightarrow> NaN | Some n \<Rightarrow> n)"

text \<open>The relational operator \<open><\<close> on numbers: false as soon as an operand is NaN.\<close>

fun num_lt :: "jsnum \<Rightarrow> jsnum \<Rightarrow> bool" where
  "num_lt NaN y = False"
| "num_lt x NaN = False"
| "num_lt (Fin a) (Fin b) = (a < b)"
| "num_lt x PosInf = (x \<noteq> PosInf)"
| "num_lt NegInf y = (y \<noteq> NegInf)"
| "num_lt x y = False"

definition js_lt :: "jsnum option \<Rightarrow> jsnum \<Rightarrow> bool" where
  "js_lt v y = num_lt (to_number v) y"

text \<open>Truthiness of a possibly undefined number: \<open>undefined\<close>, zero and NaN are falsy.\<close>

definition truthy :: "jsnum option \<Rightarrow> bool" where
  "truthy v = (case v of None \<Rightarrow> False | Some (Fin a) \<Rightarrow> a \<noteq> 0 | Some NaN \<Rightarrow> False
               | Some _ \<Rightarrow> True)"

text \<open>\<open>a || b\<close> with a number on the right.\<close>

definition js_or :: "jsnum option \<Rightarrow> jsnum \<Rightarrow> jsnum" where
  "js_or v d = (if truthy v then to_number v else d)"

section \<open>The pricing table and the price of a completion\<close>

record price_entry =
  "input" :: jsnum
  c_input :: "jsnum option"
  "output" :: jsnum

text \<open>
  \<open>modelPrice\<close>, in the order of the source. A key that is not an own property of the
  object (\<open>constructor\<close>, \<open>toString\<close>, \<open>__proto__\<close> and the like) is found on
  \<open>Object.prototype\<close>, and what is found there has neither an \<open>input\<close> nor an
  \<open>output\<close> property; reading one of them gives \<open>undefined\<close>, the same as for a key that
  is not found at all, so the lookup is the one of the five own properties.
\<close>

definition modelPrice :: "(string \<times> price_entry) list" where
  "modelPrice =
    [(''gpt-4'', \<lparr>input = js_lit (3 / 100), c_input = None, output = js_lit (6 / 100)\<rparr>),
     (''gpt-4o'', \<lparr>input = js_lit (250 / 100000), c_input = Some (js_lit (125 / 100000)),
                  output = js_lit (1000 / 100000)\<rparr>),
     (''gpt-4o-mini'', \<lparr>input = js_lit (150 / 1000000), c_input = Some (js_lit (75 / 1000)),
                       output = js_lit (6 / 10000)\<rparr>),
     (''gpt-4-turbo'', \<lparr>input = js_lit (1 / 100), c_input = None, output = js_lit (3 / 100)\<rparr>),
     (''gpt-3.5-turbo'', \<lparr>input = js_lit (15 / 10000), c_input = None,
                         output = js_lit (2 / 1000)\<rparr>)]"

text \<open>
  The parsed completion response. Every property the source reads through \<open>?.\<close> may be
  missing; the response itself may be \<open>null\<close> (\<open>None\<close> as a \<open>response option\<close>).
  \<open>opaque\<close> holds the other properties, by name, with their serialised values.
\<close>

record usage =
  prompt_tokens :: "jsnum option"
  completion_tokens :: "jsnum option"

record response =
  model :: "string option"
  usage :: "usage option"
  opaque :: "(string \<times> string) list"

text \<open>A property key: \<open>undefined\<close> is the key \<open>"undefined"\<close>.\<close>

definition property_key :: "string option \<Rightarrow> string" where
  "property_key k = (case k of None \<Rightarrow> ''undefined'' | Some s \<Rightarrow> s)"

definition getTransactionPrice :: "response option \<Rightarrow> jsnum" where
  "getTransactionPrice response =
    (let inputPrice =
           js_or (map_option input (map_of modelPrice (property_key (Option.bind response model))))
                 (js_lit 0);
         outputPrice =
           js_or (map_option output (map_of modelPrice (property_key (Option.bind response model))))
                 (js_lit 0);
         promptPrice =
           js_mul (js_div (to_number (Option.bind (Option.bind response usage) prompt_tokens))
                          (js_lit 1000)) inputPrice;
         completionPrice =
           js_mul (js_div (to_number (Option.bind (Option.bind response usage) completion_tokens))
                          (js_lit 1000)) outputPrice
     in js_add (js_add promptPrice completionPrice) (js_lit (213 / 100000000)))"

section \<open>The external collaborators\<close>

text \<open>A thrown \<open>Error\<close>; the handler reads only its \<open>message\<close>.\<close>

datatype exn = Error (message: string)

record idToken =
  aud :: string
  email :: string

text \<open>An item of the table \<open>UserAccountData\<close>, as far as the source reads it.\<close>

record account_item =
  Balance :: "jsnum option"

record get_result =
  Item :: "account_item option"

record update_result =
  Attributes :: "account_item option"

record transaction_item =
  TransactionID :: string
  UserID :: string
  Model :: "string option"
  ReqTokens :: "jsnum option"
  ResTokens :: "jsnum option"
  Duration :: jsnum

text \<open>
  What the HTTPS exchange with the completion API produces: an \<open>error\<close> event on the
  request, or a response with its status code and the data received.
\<close>

datatype exchange = RequestError string | Response int string

text \<open>
  The values the program gives to \<open>JSON.stringify\<close>: the object \<open>{message, error}\<close>
  and the parsed completion response.
\<close>

datatype json_value = MessageError string string | Completion "response option"

text \<open>
  The identity provider, the store, the completion API, the clock, the environment
  variables and the JSON functions of the library are outside the program. Each is a
  function that gives the outcome of a request: \<open>Inl\<close> is a rejected promise (or, for
  \<open>JSON.parse\<close>, a thrown \<open>SyntaxError\<close>); \<open>now k\<close> is the value of the \<open>k\<close>-th
  \<open>Date.now()\<close> of the call.
\<close>

record env =
  CLIENT_ID :: "string option"
  now :: "nat \<Rightarrow> int"
  getTokenInfo :: "string option \<Rightarrow> exn + idToken"
  dynamoDB_get :: "string \<Rightarrow> exn + get_result"
  https_request :: "string \<Rightarrow> exchange"
  JSON_parse :: "string \<Rightarrow> exn + response option"
  JSON_stringify :: "json_value \<Rightarrow> string"
  dynamoDB_put :: "transaction_item \<Rightarrow> exn option"
  dynamoDB_update :: "string \<Rightarrow> jsnum \<Rightarrow> exn + update_result"

text \<open>
  The requests a call sends out, in the order it sends them. The program reaches the
  account table, the completion API, the transaction log and the ledger through these
  requests only: a put is its one way to write a transaction record, an update its one
  way to change a balance.
\<close>

datatype effect =
    TokenInfoRequest "string option"
  | AccountGet string
  | UpstreamRequest string
  | TransactionPut transaction_item
  | BalanceUpdate string jsnum

text \<open>
  How an asynchronous step ends: with a value, with an exception that rejects the awaited
  promise (\<open>Throw\<close>), or with an exception thrown in an event listener, which no
  promise and no \<open>try\<close> of the program sees (\<open>Uncaught\<close>).
\<close>

datatype 'a completion = Value 'a | Throw exn | Uncaught exn

type_synonym 'a io = "effect list \<times> 'a completion"

definition ret :: "'a \<Rightarrow> 'a io" where
  "ret a = ([], Value a)"

definition bind_io :: "'a io \<Rightarrow> ('a \<Rightarrow> 'b io) \<Rightarrow> 'b io" where
  "bind_io m f =
    (case m of
       (tr, Value a) \<Rightarrow> (case f a of (tr', r) \<Rightarrow> (tr @ tr', r))
     | (tr, Throw e) \<Rightarrow> (tr, Throw e)
     | (tr, Uncaught e) \<Rightarrow> (tr, Uncaught e))"

section \<open>The program\<close>

text \<open>
  Decimal text of an integer, as string concatenation and template literals give it for
  a status code and for a time in milliseconds.
\<close>

fun show_nat :: "nat \<Rightarrow> string" where
  "show_nat n =
    (if n < 10 then [''0123456789'' ! n]
     else show_nat (n div 10) @ [''0123456789'' ! (n mod 10)])"

definition show_int :: "int \<Rightarrow> string" where
  "show_int i = (if i < 0 then ''-'' @ show_nat (nat (- i)) else show_nat (nat i))"

text \<open>\<open>s.split(c)\<close> for a separator of one character.\<close>

fun split :: "char \<Rightarrow> string \<Rightarrow> string list" where
  "split c [] = [[]]"
| "split c (x # xs) =
    (if x = c then [] # split c xs
     else (case split c xs of [] \<Rightarrow> [[x]] | w # ws \<Rightarrow> (x # w) # ws))"

text \<open>\<open>a[1]\<close>: \<open>undefined\<close> when the array is shorter.\<close>

fun index_1 :: "'a list \<Rightarrow> 'a option" where
  "index_1 (x # y # ys) = Some y"
| "index_1 xs = None"

text \<open>
  The inbound event is HTTP-shaped: \<open>headers\<close> is an object and \<open>body\<close> a string;
  the \<open>authorization\<close> header may be absent.
\<close>

record event =
  authorization :: "string option"
  body :: string

record http =
  statusCode :: nat
  body :: string

text \<open>The parameter \<open>error\<close> defaults to the empty string.\<close>

definition returnHTTP :: "env \<Rightarrow> nat \<Rightarrow> string \<Rightarrow> string option \<Rightarrow> http" where
  "returnHTTP env statusCode' message' error' =
    \<lparr>statusCode = statusCode',
     body = JSON_stringify env
              (MessageError message' (case error' of None \<Rightarrow> [] | Some e \<Rightarrow> e))\<rparr>"

text \<open>
  \<open>event.headers.authorization.split(' ')[1]\<close>. Without the header, \<open>split\<close> is read
  from \<open>undefined\<close>, a \<open>TypeError\<close> (the message is the one of V8).
\<close>

definition accessToken_of :: "event \<Rightarrow> (string option) io" where
  "accessToken_of event =
    (case authorization event of
       None \<Rightarrow> ([], Throw (Error ''Cannot read properties of undefined (reading 'split')''))
     | Some a \<Rightarrow> ret (index_1 (split CHR '' '' a)))"

definition client_getTokenInfo :: "env \<Rightarrow> string option \<Rightarrow> idToken io" where
  "client_getTokenInfo env accessToken =
    ([TokenInfoRequest accessToken],
     case getTokenInfo env accessToken of Inl e \<Rightarrow> Throw e | Inr t \<Rightarrow> Value t)"

definition getDBUser :: "env \<Rightarrow> string \<Rightarrow> get_result io" where
  "getDBUser env userId' =
    ([AccountGet userId'],
     case dynamoDB_get env userId' of Inl e \<Rightarrow> Throw e | Inr r \<Rightarrow> Value r)"

text \<open>
  \<open>makeOpenAIRequest\<close>. An \<open>error\<close> event and a status outside \<open>200..299\<close> reject the
  promise. On a status in that range the listener of \<open>end\<close> calls \<open>JSON.parse\<close> before
  \<open>resolve\<close>; it runs from the event loop, not inside the executor of the promise, so a
  \<open>SyntaxError\<close> thrown there leaves the promise pending and is an uncaught exception of
  the process.
\<close>

definition makeOpenAIRequest :: "env \<Rightarrow> string \<Rightarrow> (response option) io" where
  "makeOpenAIRequest env body' =
    ([UpstreamRequest body'],
     case https_request env body' of
       RequestError m \<Rightarrow> Throw (Error (''Request failed: '' @ m))
     | Response status data \<Rightarrow>
         if 200 \<le> status \<and> status < 300 then
           (case JSON_parse env data of Inl e \<Rightarrow> Uncaught e | Inr v \<Rightarrow> Value v)
         else Throw (Error (''Request failed with status code '' @ show_int status
                            @ '': '' @ data)))"

record transaction =
  userId :: string
  model :: "string option"
  resTokens :: "jsnum option"
  reqTokens :: "jsnum option"
  duration :: jsnum

definition logTransaction :: "env \<Rightarrow> transaction \<Rightarrow> unit io" where
  "logTransaction env transaction =
    (let item = \<lparr>TransactionID = ''txn-'' @ show_int (now env 2),
                 UserID = userId transaction,
                 Model = transaction.model transaction,
                 ReqTokens = reqTokens transaction,
                 ResTokens = resTokens transaction,
                 Duration = duration transaction\<rparr>
     in ([TransactionPut item],
         case dynamoDB_put env item of Some e \<Rightarrow> Throw e | None \<Rightarrow> Value ()))"

text \<open>
  \<open>deductUserBalance\<close>: one update request with the expression
  \<open>set Balance = Balance - :amount\<close>. The \<open>catch\<close> logs and throws the same error again;
  \<open>result.Attributes.Balance\<close> is a \<open>TypeError\<close> when \<open>Attributes\<close> is missing.
  Writing to the console is not modelled.
\<close>

definition deductUserBalance :: "env \<Rightarrow> string \<Rightarrow> jsnum \<Rightarrow> (jsnum option) io" where
  "deductUserBalance env userId' amountToDeduct =
    ([BalanceUpdate userId' amountToDeduct],
     case dynamoDB_update env userId' amountToDeduct of
       Inl e \<Rightarrow> Throw e
     | Inr result \<Rightarrow>
         (case Attributes result of
            None \<Rightarrow> Throw (Error ''Cannot read properties of undefined (reading 'Balance')'')
          | Some a \<Rightarrow> Value (Balance a)))"

text \<open>
  The body of the \<open>try\<close> block of \<open>handler\<close>. The values of \<open>Date.now()\<close> are
  integers that binary64 represents exactly; their difference is rounded as every result
  of a subtraction is.
\<close>

definition handler_try :: "env \<Rightarrow> event \<Rightarrow> http io" where
  "handler_try env event =
    (let startTime = now env 0 in
     bind_io (accessToken_of event) (\<lambda>accessToken.
     bind_io (client_getTokenInfo env accessToken) (\<lambda>idToken.
     if Some (aud idToken) \<noteq> CLIENT_ID env then
       ret (returnHTTP env 401 ''Access token is not intended for this client'' None)
     else
     bind_io (getDBUser env (email idToken)) (\<lambda>dbUser.
     case Item dbUser of
       None \<Rightarrow> ret (returnHTTP env 401 ''User does not exist'' None)
     | Some item \<Rightarrow>
     if js_lt (Balance item) (js_lit 0) then
       ret (returnHTTP env 402 ''User has insufficient balance'' None)
     else
     bind_io (makeOpenAIRequest env (event.body event)) (\<lambda>response.
     let endTime = now env 1;
         transaction =
           \<lparr>userId = email idToken,
            model = Option.bind response response.model,
            resTokens = Option.bind (Option.bind response usage) completion_tokens,
            reqTokens = Option.bind (Option.bind response usage) prompt_tokens,
            duration = js_div (to_double (of_int (endTime - startTime))) (js_lit 1000)\<rparr>
     in
     bind_io (logTransaction env transaction) (\<lambda>_.
     let transactionPrice = getTransactionPrice response in
     bind_io (deductUserBalance env (email idToken) transactionPrice) (\<lambda>_.
     ret \<lparr>statusCode = 200, body = JSON_stringify env (Completion response)\<rparr>)))))))"

text \<open>
  What a call of \<open>handler\<close> comes to: the result it returns, or an exception that escaped
  it.
\<close>

datatype outcome = Returned http | Escaped exn

definition handler :: "env \<Rightarrow> event \<Rightarrow> effect list \<times> outcome" where
  "handler env event =
    (case handler_try env event of
       (tr, Value r) \<Rightarrow> (tr, Returned r)
     | (tr, Throw err) \<Rightarrow>
         (tr, Returned \<lparr>statusCode = 401,
                        body = JSON_stringify env
                                 (MessageError ''Token is invalid'' (message err))\<rparr>)
     | (tr, Uncaught err) \<Rightarrow> (tr, Escaped err))"

section \<open>What the properties speak of\<close>

text \<open>
  The price as the specification words it: the rates of the model from the pricing table,
  both zero for a model name that is not in the table, and the fixed surcharge.
\<close>

definition spec_inputRate :: "string \<Rightarrow> jsnum" where
  "spec_inputRate m = (case map_of modelPrice m of None \<Rightarrow> Fin 0 | Some e \<Rightarrow> input e)"

definition spec_outputRate :: "string \<Rightarrow> jsnum" where
  "spec_outputRate m = (case map_of modelPrice m of None \<Rightarrow> Fin 0 | Some e \<Rightarrow> output e)"

definition spec_price :: "string \<Rightarrow> jsnum \<Rightarrow> jsnum \<Rightarrow> jsnum" where
  "spec_price m p c =
    js_add (js_add (js_mul (js_div p (Fin 1000)) (spec_inputRate m))
                   (js_mul (js_div c (Fin 1000)) (spec_outputRate m)))
           (js_lit (213 / 100000000))"

definition completion_of :: "string \<Rightarrow> jsnum \<Rightarrow> jsnum \<Rightarrow> response option" where
  "completion_of m p c =
    Some \<lparr>response.model = Some m,
          usage = Some \<lparr>prompt_tokens = Some p, completion_tokens = Some c\<rparr>,
          opaque = []\<rparr>"

text \<open>The requests of a trace, by kind.\<close>

fun is_account_read :: "effect \<Rightarrow> bool" where
  "is_account_read (AccountGet u) = True"
| "is_account_read e = False"

fun is_upstream_call :: "effect \<Rightarrow> bool" where
  "is_upstream_call (UpstreamRequest b) = True"
| "is_upstream_call e = False"

fun is_log_write :: "effect \<Rightarrow> bool" where
  "is_log_write (TransactionPut i) = True"
| "is_log_write e = False"

fun is_ledger_update :: "effect \<Rightarrow> bool" where
  "is_ledger_update (BalanceUpdate u a) = True"
| "is_ledger_update e = False"

definition account_reads :: "effect list \<Rightarrow> effect list" where
  "account_reads tr = filter is_account_read tr"

definition upstream_calls :: "effect list \<Rightarrow> effect list" where
  "upstream_calls tr = filter is_upstream_call tr"

definition log_writes :: "effect list \<Rightarrow> effect list" where
  "log_writes tr = filter is_log_write tr"

definition ledger_updates :: "effect list \<Rightarrow> effect list" where
  "ledger_updates tr = filter is_ledger_update tr"

text \<open>The log writes and the ledger updates of a trace, in the order they were sent.\<close>

definition store_writes :: "effect list \<Rightarrow> effect list" where
  "store_writes tr = filter (\<lambda>e. is_log_write e \<or> is_ledger_update e) tr"

fun status_of :: "outcome \<Rightarrow> nat option" where
  "status_of (Returned r) = Some (statusCode r)"
| "status_of (Escaped e) = None"

text \<open>The access token the handler takes from the event.\<close>

definition bearer :: "event \<Rightarrow> string option" where
  "bearer event = Option.bind (authorization event) (\<lambda>a. index_1 (split CHR '' '' a))"

text \<open>The identity provider verified the token of the event and gave its metadata.\<close>

definition verified :: "env \<Rightarrow> event \<Rightarrow> idToken \<Rightarrow> bool" where
  "verified env event idToken =
    (authorization event \<noteq> None \<and> getTokenInfo env (bearer event) = Inr idToken)"

text \<open>Authenticated: verified, and issued for the configured client.\<close>

definition authenticated :: "env \<Rightarrow> event \<Rightarrow> idToken \<Rightarrow> bool" where
  "authenticated env event idToken =
    (verified env event idToken \<and> Some (aud idToken) = CLIENT_ID env)"

text \<open>The account of the subject was read and has this item (\<open>None\<close>: no item).\<close>

definition account_is :: "env \<Rightarrow> idToken \<Rightarrow> account_item option \<Rightarrow> bool" where
  "account_is env idToken item =
    (case dynamoDB_get env (email idToken) of Inl e \<Rightarrow> False | Inr r \<Rightarrow> Item r = item)"

text \<open>Admitted: authenticated, with an account whose balance does not compare below zero.\<close>

definition admitted :: "env \<Rightarrow> event \<Rightarrow> idToken \<Rightarrow> bool" where
  "admitted env event idToken =
    (authenticated env event idToken \<and>
     (case dynamoDB_get env (email idToken) of
        Inl e \<Rightarrow> False
      | Inr r \<Rightarrow> (case Item r of None \<Rightarrow> False
                              | Some item \<Rightarrow> \<not> js_lt (Balance item) (js_lit 0))))"

text \<open>The upstream exchange ended with a status in \<open>200..299\<close> and data that parse.\<close>

definition upstream_succeeds :: "env \<Rightarrow> event \<Rightarrow> response option \<Rightarrow> bool" where
  "upstream_succeeds env event response =
    (case https_request env (event.body event) of
       RequestError m \<Rightarrow> False
     | Response status data \<Rightarrow>
         200 \<le> status \<and> status < 300 \<and> JSON_parse env data = Inr response)"

text \<open>The item \<open>logTransaction\<close> puts for a response, and the price deducted for it.\<close>

definition logged_item :: "env \<Rightarrow> idToken \<Rightarrow> response option \<Rightarrow> transaction_item" where
  "logged_item env idToken response =
    \<lparr>TransactionID = ''txn-'' @ show_int (now env 2),
     UserID = email idToken,
     Model = Option.bind response response.model,
     ReqTokens = Option.bind (Option.bind response usage) prompt_tokens,
     ResTokens = Option.bind (Option.bind response usage) completion_tokens,
     Duration = js_div (to_double (of_int (now env 1 - now env 0))) (js_lit 1000)\<rparr>"

subsection \<open>Concrete calls\<close>

definition a_token :: idToken where
  "a_token = \<lparr>aud = ''client-1'', email = ''ann@example.org''\<rparr>"

definition a_response :: "response option" where
  "a_response = completion_of ''gpt-3.5-turbo'' (Fin 100) (Fin 50)"

definition request_text :: string where
  \<open>request_text =
    ''{"model":"gpt-3.5-turbo","messages":[{"role":"user","content":"Hello"}]}''\<close>

definition an_event :: event where
  "an_event = \<lparr>authorization = Some ''Bearer abc'', event.body = request_text\<rparr>"

text \<open>
  The data the completion API sends in these calls, indented as the API sends it, and the
  text \<open>JSON.stringify\<close> makes of the value \<open>JSON.parse\<close> gives for them.
\<close>

definition upstream_text :: string where
  \<open>upstream_text =
    ''{ "model": "gpt-3.5-turbo", "usage": { "prompt_tokens": 100, "completion_tokens": 50 } }''\<close>

definition compact_text :: string where
  \<open>compact_text =
    ''{"model":"gpt-3.5-turbo","usage":{"prompt_tokens":100,"completion_tokens":50}}''\<close>

text \<open>
  \<open>JSON.stringify\<close> on the values of these calls: the response above, and objects
  \<open>{message, error}\<close> whose two strings need no escaping.
\<close>

definition stringify_here :: "json_value \<Rightarrow> string" where
  \<open>stringify_here v =
    (case v of
       Completion r \<Rightarrow> compact_text
     | MessageError m e \<Rightarrow> ''{"message":"'' @ m @ ''","error":"'' @ e @ ''"}'')\<close>

text \<open>Every collaborator succeeds; the account has the balance \<open>10\<close>.\<close>

definition env_ok :: env where
  "env_ok =
    \<lparr>CLIENT_ID = Some ''client-1'',
     now = (\<lambda>k. 1700000000000 + 400 * int k),
     getTokenInfo = (\<lambda>t. Inr a_token),
     dynamoDB_get = (\<lambda>u. Inr \<lparr>Item = Some \<lparr>Balance = Some (Fin 10)\<rparr>\<rparr>),
     https_request = (\<lambda>b. Response 200 upstream_text),
     JSON_parse = (\<lambda>d. Inr a_response),
     JSON_stringify = stringify_here,
     dynamoDB_put = (\<lambda>i. None),
     dynamoDB_update = (\<lambda>u a. Inr \<lparr>Attributes = Some \<lparr>Balance = Some (Fin 9)\<rparr>\<rparr>)\<rparr>"

text \<open>The token was issued for another client.\<close>

definition env_other_client :: env where
  "env_other_client = env_ok\<lparr>CLIENT_ID := Some ''client-2''\<rparr>"

text \<open>The subject has no account.\<close>

definition env_no_account :: env where
  "env_no_account = env_ok\<lparr>dynamoDB_get := (\<lambda>u. Inr \<lparr>Item = None\<rparr>)\<rparr>"

text \<open>The balance of the account is \<open>-1\<close>.\<close>

definition env_in_debt :: env where
  "env_in_debt = env_ok\<lparr>dynamoDB_get := (\<lambda>u. Inr \<lparr>Item = Some \<lparr>Balance = Some (Fin (- 1))\<rparr>\<rparr>)\<rparr>"

text \<open>The item of the account has no \<open>Balance\<close> attribute.\<close>

definition env_no_balance :: env where
  "env_no_balance = env_ok\<lparr>dynamoDB_get := (\<lambda>u. Inr \<lparr>Item = Some \<lparr>Balance = None\<rparr>\<rparr>)\<rparr>"

text \<open>The put of the transaction record is rejected by the store.\<close>

definition env_log_fails :: env where
  "env_log_fails = env_ok\<lparr>dynamoDB_put := (\<lambda>i. Some (Error ''Requested resource not found''))\<rparr>"

text \<open>The update of the balance is rejected by the store.\<close>

definition env_deduct_fails :: env where
  "env_deduct_fails =
    env_ok\<lparr>dynamoDB_update := (\<lambda>u a. Inl (Error ''Requested resource not found''))\<rparr>"

text \<open>The completion API answers with status 200 and data that are not JSON.\<close>

definition env_unparsable :: env where
  "env_unparsable =
    env_ok\<lparr>https_request := (\<lambda>b. Response 200 ''<html>''),
           JSON_parse := (\<lambda>d. Inl (Error ''Unexpected token < in JSON at position 0''))\<rparr>"

section \<open>Numbers: supporting facts\<close>

lemma js_lit_zero: "js_lit 0 = Fin 0"
  by (simp add: js_lit_def to_double_def)

lemma js_lit_thousand: "js_lit 1000 = Fin 1000"
  by code_simp

text \<open>The rounding gives the known binary64 values of \<open>0.1\<close> and of \<open>0.03\<close>.\<close>

lemma to_double_tenth: "to_double (1 / 10) = Fin (3602879701896397 / 36028797018963968)"
  by code_simp

lemma to_double_gpt4_input: "js_lit (3 / 100) = Fin (1080863910568919 / 36028797018963968)"
  by code_simp

lemma truthy_undefined: "\<not> truthy None"
  by (simp add: truthy_def)

section \<open>The price\<close>

text \<open>No rate of the table is falsy, so \<open>|| 0\<close> replaces only a missing rate.\<close>

lemma table_rates_truthy:
  "list_all (\<lambda>(k, e). truthy (Some (input e)) \<and> truthy (Some (output e))) modelPrice"
  by code_simp

lemma rate_truthy:
  assumes "map_of modelPrice m = Some e"
  shows "truthy (Some (input e))" and "truthy (Some (output e))"
proof -
  from assms have "(m, e) \<in> set modelPrice" by (rule map_of_SomeD)
  with table_rates_truthy show "truthy (Some (input e))" and "truthy (Some (output e))"
    by (auto simp: list_all_iff)
qed

lemma inputPrice_is_rate:
  "js_or (map_option input (map_of modelPrice m)) (js_lit 0) = spec_inputRate m"
  by (cases "map_of modelPrice m")
     (simp_all add: js_or_def truthy_undefined spec_inputRate_def js_lit_zero to_number_def
        rate_truthy)

lemma outputPrice_is_rate:
  "js_or (map_option output (map_of modelPrice m)) (js_lit 0) = spec_outputRate m"
  by (cases "map_of modelPrice m")
     (simp_all add: js_or_def truthy_undefined spec_outputRate_def js_lit_zero to_number_def
        rate_truthy)

lemma price_with_usage:
  "getTransactionPrice
     (Some \<lparr>response.model = Some m,
            usage = Some \<lparr>prompt_tokens = Some p, completion_tokens = Some c\<rparr>,
            opaque = ops\<rparr>) = spec_price m p c"
  by (simp add: getTransactionPrice_def spec_price_def property_key_def inputPrice_is_rate
      outputPrice_is_rate to_number_def js_lit_thousand)

lemma absent_model_rates:
  assumes "m \<notin> fst ` set modelPrice"
  shows "spec_inputRate m = Fin 0 \<and> spec_outputRate m = Fin 0"
proof -
  from assms have "map_of modelPrice m = None" by (simp add: map_of_eq_None_iff)
  then show ?thesis by (simp add: spec_inputRate_def spec_outputRate_def)
qed

lemma price_gpt4:
  "getTransactionPrice (completion_of ''gpt-4'' (Fin 1000) (Fin 1000))
     = js_lit (9000213 / 100000000)"
  by code_simp

lemma price_unknown_model:
  "getTransactionPrice (completion_of ''unknown-model'' (Fin 500) (Fin 500))
     = js_lit (213 / 100000000)"
  by code_simp

lemma price_reads_model_and_usage:
  assumes "response.model r = response.model r'" and "usage r = usage r'"
  shows "getTransactionPrice (Some r) = getTransactionPrice (Some r')"
  using assms by (simp add: getTransactionPrice_def)

text \<open>
  C1. For a completion response with a model name and both token counts, the computed
  price is \<open>(prompt_tokens / 1000) * inputRate + (completion_tokens / 1000) * outputRate
  + 0.00000213\<close> in the arithmetic of JavaScript numbers, the rates being those of the
  pricing table and both zero for a model name the table does not have. For \<open>gpt-4\<close> with
  1000 and 1000 tokens it is the number \<open>0.09000213\<close>, for \<open>unknown-model\<close> with 500 and
  500 tokens the number \<open>0.00000213\<close>. The price is a function of the model name and the
  token counts: two responses that agree on them have the same price.
\<close>

theorem price_follows_formula:
  "getTransactionPrice
     (Some \<lparr>response.model = Some m,
            usage = Some \<lparr>prompt_tokens = Some p, completion_tokens = Some c\<rparr>,
            opaque = ops\<rparr>) = spec_price m p c
   \<and> (m \<notin> fst ` set modelPrice \<longrightarrow> spec_inputRate m = Fin 0 \<and> spec_outputRate m = Fin 0)
   \<and> getTransactionPrice (completion_of ''gpt-4'' (Fin 1000) (Fin 1000))
       = js_lit (9000213 / 100000000)
   \<and> getTransactionPrice (completion_of ''unknown-model'' (Fin 500) (Fin 500))
       = js_lit (213 / 100000000)
   \<and> (response.model r = response.model r' \<and> usage r = usage r'
        \<longrightarrow> getTransactionPrice (Some r) = getTransactionPrice (Some r'))"
  using price_with_usage absent_model_rates price_gpt4 price_unknown_model
    price_reads_model_and_usage
  by blast

theorem price_follows_formula_witness:
  "''unknown-model'' \<notin> fst ` set modelPrice
   \<and> spec_inputRate ''unknown-model'' = Fin 0 \<and> spec_outputRate ''unknown-model'' = Fin 0
   \<and> getTransactionPrice
        (Some \<lparr>response.model = Some ''gpt-4'', usage = None, opaque = [(''id'', ''1'')]\<rparr>)
     = getTransactionPrice (Some \<lparr>response.model = Some ''gpt-4'', usage = None, opaque = []\<rparr>)"
proof -
  have absent: "''unknown-model'' \<notin> fst ` set modelPrice"
    by (simp add: modelPrice_def)
  from absent
    price_follows_formula [of "''unknown-model''" "Fin 500" "Fin 500" "[]"
      "\<lparr>response.model = Some ''gpt-4'', usage = None, opaque = [(''id'', ''1'')]\<rparr>"
      "\<lparr>response.model = Some ''gpt-4'', usage = None, opaque = []\<rparr>"]
  show ?thesis by simp
qed

text \<open>
  C7. A response without a \<open>usage\<close> block does not have the fixed surcharge as its price.
  Both token counts are read as \<open>undefined\<close>, \<open>undefined / 1000\<close> is NaN, and NaN goes
  through the products and the sums: the price is NaN, whatever the model; so it is for
  the response \<open>null\<close>.
\<close>

theorem price_without_usage_is_NaN:
  "getTransactionPrice (Some \<lparr>response.model = m, usage = None, opaque = ops\<rparr>) = NaN
   \<and> getTransactionPrice None = NaN
   \<and> js_lit (213 / 100000000) \<noteq> NaN"
proof -
  have "js_lit (213 / 100000000) \<noteq> NaN" by code_simp
  then show ?thesis by (simp add: getTransactionPrice_def to_number_def)
qed

section \<open>The guards of the handler\<close>

lemmas step_defs = accessToken_of_def client_getTokenInfo_def getDBUser_def
  makeOpenAIRequest_def logTransaction_def deductUserBalance_def bind_io_def ret_def

lemmas pred_defs = verified_def authenticated_def account_is_def admitted_def
  upstream_succeeds_def bearer_def

lemmas trace_defs = account_reads_def upstream_calls_def log_writes_def ledger_updates_def
  store_writes_def

lemma handler_other_audience:
  assumes "verified env event idToken" and "Some (aud idToken) \<noteq> CLIENT_ID env"
  shows "handler env event =
           ([TokenInfoRequest (bearer event)],
            Returned (returnHTTP env 401 ''Access token is not intended for this client'' None))"
  using assms
  by (auto simp: handler_def handler_try_def step_defs pred_defs)

lemma handler_no_item:
  assumes "authenticated env event idToken" and "account_is env idToken None"
  shows "handler env event =
           ([TokenInfoRequest (bearer event), AccountGet (email idToken)],
            Returned (returnHTTP env 401 ''User does not exist'' None))"
  using assms
  by (auto simp: handler_def handler_try_def step_defs pred_defs split: sum.splits)

lemma handler_balance_below_zero:
  assumes "authenticated env event idToken" and "account_is env idToken (Some item)"
    and "js_lt (Balance item) (js_lit 0)"
  shows "handler env event =
           ([TokenInfoRequest (bearer event), AccountGet (email idToken)],
            Returned (returnHTTP env 402 ''User has insufficient balance'' None))"
  using assms
  by (auto simp: handler_def handler_try_def step_defs pred_defs split: sum.splits)

text \<open>
  C6. When the identity provider verifies the token and its audience is not the
  configured client identifier, the handler returns status 401. The only request of the
  call is the one to the identity provider: no account read, no upstream call, no write
  to the transaction log, no update of the ledger.
\<close>

theorem audience_mismatch_rejected:
  assumes "verified env event idToken" and "Some (aud idToken) \<noteq> CLIENT_ID env"
  shows "status_of (snd (handler env event)) = Some 401
    \<and> snd (handler env event) =
        Returned (returnHTTP env 401 ''Access token is not intended for this client'' None)
    \<and> fst (handler env event) = [TokenInfoRequest (bearer event)]
    \<and> account_reads (fst (handler env event)) = []
    \<and> upstream_calls (fst (handler env event)) = []
    \<and> log_writes (fst (handler env event)) = []
    \<and> ledger_updates (fst (handler env event)) = []"
proof -
  from assms have run: "handler env event = ([TokenInfoRequest (bearer event)],
      Returned (returnHTTP env 401 ''Access token is not intended for this client'' None))"
    by (rule handler_other_audience)
  show ?thesis
    unfolding run by (simp add: trace_defs returnHTTP_def)
qed

theorem audience_mismatch_rejected_witness:
  "verified env_other_client an_event a_token
   \<and> Some (aud a_token) \<noteq> CLIENT_ID env_other_client
   \<and> status_of (snd (handler env_other_client an_event)) = Some 401
   \<and> fst (handler env_other_client an_event) = [TokenInfoRequest (Some ''abc'')]
   \<and> account_reads (fst (handler env_other_client an_event)) = []
   \<and> upstream_calls (fst (handler env_other_client an_event)) = []
   \<and> log_writes (fst (handler env_other_client an_event)) = []
   \<and> ledger_updates (fst (handler env_other_client an_event)) = []"
proof -
  have v: "verified env_other_client an_event a_token"
    by (simp add: pred_defs env_other_client_def env_ok_def an_event_def)
  have a: "Some (aud a_token) \<noteq> CLIENT_ID env_other_client"
    by (simp add: env_other_client_def env_ok_def a_token_def)
  have b: "bearer an_event = Some ''abc''"
    by (simp add: bearer_def an_event_def)
  from audience_mismatch_rejected [OF v a] v a b show ?thesis 
    by (simp add: trace_defs returnHTTP_def)
qed

text \<open>
  C5. For an authenticated subject whose account read finds no item, the handler returns
  status 401. The requests of the call are the token verification and the account read:
  no upstream call, no write to the transaction log, no update of the ledger.
\<close>

theorem missing_account_rejected:
  assumes "authenticated env event idToken" and "account_is env idToken None"
  shows "status_of (snd (handler env event)) = Some 401
    \<and> snd (handler env event) = Returned (returnHTTP env 401 ''User does not exist'' None)
    \<and> fst (handler env event) = [TokenInfoRequest (bearer event), AccountGet (email idToken)]
    \<and> upstream_calls (fst (handler env event)) = []
    \<and> log_writes (fst (handler env event)) = []
    \<and> ledger_updates (fst (handler env event)) = []"
proof -
  from assms have run: "handler env event = ([TokenInfoRequest (bearer event), AccountGet (email idToken)],
      Returned (returnHTTP env 401 ''User does not exist'' None))"
    by (rule handler_no_item)
  show ?thesis
    unfolding run by (simp add: trace_defs returnHTTP_def)
qed

theorem missing_account_rejected_witness:
  "authenticated env_no_account an_event a_token
   \<and> account_is env_no_account a_token None
   \<and> status_of (snd (handler env_no_account an_event)) = Some 401
   \<and> fst (handler env_no_account an_event)
       = [TokenInfoRequest (Some ''abc''), AccountGet ''ann@example.org'']
   \<and> upstream_calls (fst (handler env_no_account an_event)) = []
   \<and> log_writes (fst (handler env_no_account an_event)) = []
   \<and> ledger_updates (fst (handler env_no_account an_event)) = []"
proof -
  have au: "authenticated env_no_account an_event a_token"
    by (simp add: pred_defs env_no_account_def env_ok_def an_event_def a_token_def)
  have ac: "account_is env_no_account a_token None"
    by (simp add: account_is_def env_no_account_def env_ok_def)
  have b: "bearer an_event = Some ''abc''" and e: "email a_token = ''ann@example.org''"
    by (simp_all add: bearer_def an_event_def a_token_def)
  from missing_account_rejected [OF au ac] au ac b e show ?thesis 
    by (simp add: trace_defs returnHTTP_def)
qed

text \<open>
  C4. For an authenticated subject whose account item has a balance below zero, the
  handler returns status 402. The requests of the call are the token verification and the
  account read: no upstream call, no write to the transaction log, no update of the
  ledger.
\<close>

theorem negative_balance_rejected:
  assumes "authenticated env event idToken" and "account_is env idToken (Some item)"
    and "js_lt (Balance item) (js_lit 0)"
  shows "status_of (snd (handler env event)) = Some 402
    \<and> snd (handler env event) =
        Returned (returnHTTP env 402 ''User has insufficient balance'' None)
    \<and> fst (handler env event) = [TokenInfoRequest (bearer event), AccountGet (email idToken)]
    \<and> upstream_calls (fst (handler env event)) = []
    \<and> log_writes (fst (handler env event)) = []
    \<and> ledger_updates (fst (handler env event)) = []"
proof -
  from assms have run: "handler env event = ([TokenInfoRequest (bearer event), AccountGet (email idToken)],
      Returned (returnHTTP env 402 ''User has insufficient balance'' None))"
    by (rule handler_balance_below_zero)
  show ?thesis
    unfolding run by (simp add: trace_defs returnHTTP_def)
qed

theorem negative_balance_rejected_witness:
  "authenticated env_in_debt an_event a_token
   \<and> account_is env_in_debt a_token (Some \<lparr>Balance = Some (Fin (- 1))\<rparr>)
   \<and> js_lt (Balance \<lparr>Balance = Some (Fin (- 1))\<rparr>) (js_lit 0)
   \<and> status_of (snd (handler env_in_debt an_event)) = Some 402
   \<and> fst (handler env_in_debt an_event)
       = [TokenInfoRequest (Some ''abc''), AccountGet ''ann@example.org'']
   \<and> upstream_calls (fst (handler env_in_debt an_event)) = []
   \<and> log_writes (fst (handler env_in_debt an_event)) = []
   \<and> ledger_updates (fst (handler env_in_debt an_event)) = []"
proof -
  have au: "authenticated env_in_debt an_event a_token"
    by (simp add: pred_defs env_in_debt_def env_ok_def an_event_def a_token_def)
  have ac: "account_is env_in_debt a_token (Some \<lparr>Balance = Some (Fin (- 1))\<rparr>)"
    by (simp add: account_is_def env_in_debt_def env_ok_def)
  have lt: "js_lt (Balance \<lparr>Balance = Some (Fin (- 1))\<rparr>) (js_lit 0)"
    by (simp add: js_lt_def to_number_def js_lit_zero)
  have b: "bearer an_event = Some ''abc''" and e: "email a_token = ''ann@example.org''"
    by (simp_all add: bearer_def an_event_def a_token_def)
  from negative_balance_rejected [OF au ac lt] au ac lt b e show ?thesis 
    by (simp add: trace_defs returnHTTP_def)
qed

section \<open>After admission\<close>

lemma handler_try_admitted:
  assumes "admitted env event idToken"
  shows "handler_try env event =
     bind_io ([TokenInfoRequest (bearer event), AccountGet (email idToken)], Value ()) (\<lambda>_.
     bind_io (makeOpenAIRequest env (event.body event)) (\<lambda>response.
     bind_io (logTransaction env
        \<lparr>userId = email idToken,
         model = Option.bind response response.model,
         resTokens = Option.bind (Option.bind response usage) completion_tokens,
         reqTokens = Option.bind (Option.bind response usage) prompt_tokens,
         duration = js_div (to_double (of_int (now env 1 - now env 0))) (js_lit 1000)\<rparr>) (\<lambda>_.
     bind_io (deductUserBalance env (email idToken) (getTransactionPrice response)) (\<lambda>_.
     ret \<lparr>statusCode = 200, body = JSON_stringify env (Completion response)\<rparr>))))"
  using assms
  by (auto simp: handler_try_def accessToken_of_def client_getTokenInfo_def getDBUser_def
      bind_io_def ret_def pred_defs Let_def split: sum.splits option.splits prod.splits)

lemma logTransaction_puts_logged_item:
  "logTransaction env
        \<lparr>userId = email idToken,
         model = Option.bind response response.model,
         resTokens = Option.bind (Option.bind response usage) completion_tokens,
         reqTokens = Option.bind (Option.bind response usage) prompt_tokens,
         duration = js_div (to_double (of_int (now env 1 - now env 0))) (js_lit 1000)\<rparr>
   = ([TransactionPut (logged_item env idToken response)],
      case dynamoDB_put env (logged_item env idToken response) of
        Some e \<Rightarrow> Throw e | None \<Rightarrow> Value ())"
  by (simp add: logTransaction_def logged_item_def Let_def)

lemma handler_try_upstream_done:
  assumes "admitted env event idToken" and "upstream_succeeds env event response"
  shows "handler_try env event =
     bind_io ([TokenInfoRequest (bearer event), AccountGet (email idToken),
               UpstreamRequest (event.body event),
               TransactionPut (logged_item env idToken response)],
              case dynamoDB_put env (logged_item env idToken response) of
                Some e \<Rightarrow> Throw e | None \<Rightarrow> Value ()) (\<lambda>_.
     bind_io (deductUserBalance env (email idToken) (getTransactionPrice response)) (\<lambda>_.
     ret \<lparr>statusCode = 200, body = JSON_stringify env (Completion response)\<rparr>))"
  using assms(2)
  unfolding handler_try_admitted [OF assms(1)] logTransaction_puts_logged_item
  by (auto simp: makeOpenAIRequest_def upstream_succeeds_def bind_io_def ret_def
           split: exchange.splits option.splits prod.splits completion.splits)

lemma admitted_not_402:
  assumes "admitted env event idToken"
  shows "status_of (snd (handler env event)) \<noteq> Some 402"
    and "upstream_calls (fst (handler env event)) = [UpstreamRequest (event.body event)]"
  by (auto simp: handler_def handler_try_admitted [OF assms] makeOpenAIRequest_def
      logTransaction_def deductUserBalance_def bind_io_def ret_def trace_defs Let_def
      split: option.splits sum.splits completion.splits prod.splits exchange.splits)

text \<open>A deduction is one update request, with no read before it.\<close>

lemma deductUserBalance_one_update:
  "fst (deductUserBalance env u a) = [BalanceUpdate u a]"
  by (simp add: deductUserBalance_def)

text \<open>An exception that rejects an awaited promise is answered with status 401.\<close>

lemma handler_catches_throw:
  assumes "handler_try env event = (tr, Throw err)"
  shows "handler env event =
    (tr, Returned \<lparr>statusCode = 401,
                   body = JSON_stringify env
                            (MessageError ''Token is invalid'' (message err))\<rparr>)"
  using assms by (simp add: handler_def)

text \<open>
  C2, as stated: for every call whose upstream invocation succeeds, exactly one
  transaction record is written and then exactly one ledger deduction is attempted. It
  fails when the store rejects the put of the record: the call is admitted, the upstream
  invocation succeeds, and the handler answers 401 without attempting a deduction.
\<close>

theorem no_deduction_when_log_write_fails:
  "admitted env_log_fails an_event a_token
   \<and> upstream_succeeds env_log_fails an_event a_response
   \<and> ledger_updates (fst (handler env_log_fails an_event)) = []
   \<and> status_of (snd (handler env_log_fails an_event)) = Some 401"
  by (simp add: handler_def handler_try_def step_defs pred_defs trace_defs env_log_fails_def
      env_ok_def an_event_def a_token_def js_lit_zero js_lt_def to_number_def)

text \<open>
  C2, amended: for every call whose upstream invocation succeeds, exactly one put of a
  transaction record is sent to the audit store. When that put succeeds, exactly one
  ledger deduction is attempted, after the put, whether the deduction then succeeds or
  fails; when the put fails, no deduction is attempted and the call ends in the catch-all
  with status 401, the \<open>error\<close> of the body being the message of the failed put.
\<close>

theorem one_log_write_then_one_deduction:
  assumes "admitted env event idToken" and "upstream_succeeds env event response"
  shows "log_writes (fst (handler env event))
           = [TransactionPut (logged_item env idToken response)]
    \<and> ledger_updates (fst (handler env event)) =
        (if dynamoDB_put env (logged_item env idToken response) = None
         then [BalanceUpdate (email idToken) (getTransactionPrice response)] else [])
    \<and> store_writes (fst (handler env event)) =
        (if dynamoDB_put env (logged_item env idToken response) = None
         then [TransactionPut (logged_item env idToken response),
               BalanceUpdate (email idToken) (getTransactionPrice response)]
         else [TransactionPut (logged_item env idToken response)])
    \<and> (dynamoDB_put env (logged_item env idToken response) = Some err \<longrightarrow>
         status_of (snd (handler env event)) = Some 401
         \<and> snd (handler env event) =
             Returned \<lparr>statusCode = 401,
                       body = JSON_stringify env
                                (MessageError ''Token is invalid'' (message err))\<rparr>)"
proof -
  have traces: "log_writes (fst (handler env event))
           = [TransactionPut (logged_item env idToken response)]
    \<and> ledger_updates (fst (handler env event)) =
        (if dynamoDB_put env (logged_item env idToken response) = None
         then [BalanceUpdate (email idToken) (getTransactionPrice response)] else [])
    \<and> store_writes (fst (handler env event)) =
        (if dynamoDB_put env (logged_item env idToken response) = None
         then [TransactionPut (logged_item env idToken response),
               BalanceUpdate (email idToken) (getTransactionPrice response)]
         else [TransactionPut (logged_item env idToken response)])"
    by (auto simp: handler_def handler_try_upstream_done [OF assms] deductUserBalance_def
        bind_io_def ret_def trace_defs
        split: option.splits sum.splits completion.splits prod.splits)
  have caught: "snd (handler env event) =
             Returned \<lparr>statusCode = 401,
                       body = JSON_stringify env
                                (MessageError ''Token is invalid'' (message err))\<rparr>"
    if "dynamoDB_put env (logged_item env idToken response) = Some err"
    using that
    by (simp add: handler_def handler_try_upstream_done [OF assms] bind_io_def)
  from traces caught show ?thesis by simp
qed

text \<open>
  Two calls: in the first the deduction is rejected by the store, in the second the put
  of the transaction record.
\<close>

theorem one_log_write_then_one_deduction_witness:
  "admitted env_deduct_fails an_event a_token
   \<and> upstream_succeeds env_deduct_fails an_event a_response
   \<and> dynamoDB_update env_deduct_fails (email a_token) (getTransactionPrice a_response)
       = Inl (Error ''Requested resource not found'')
   \<and> log_writes (fst (handler env_deduct_fails an_event))
       = [TransactionPut (logged_item env_deduct_fails a_token a_response)]
   \<and> ledger_updates (fst (handler env_deduct_fails an_event))
       = [BalanceUpdate (email a_token) (getTransactionPrice a_response)]
   \<and> store_writes (fst (handler env_deduct_fails an_event))
       = [TransactionPut (logged_item env_deduct_fails a_token a_response),
          BalanceUpdate (email a_token) (getTransactionPrice a_response)]
   \<and> admitted env_log_fails an_event a_token
   \<and> upstream_succeeds env_log_fails an_event a_response
   \<and> dynamoDB_put env_log_fails (logged_item env_log_fails a_token a_response)
       = Some (Error ''Requested resource not found'')
   \<and> log_writes (fst (handler env_log_fails an_event))
       = [TransactionPut (logged_item env_log_fails a_token a_response)]
   \<and> store_writes (fst (handler env_log_fails an_event))
       = [TransactionPut (logged_item env_log_fails a_token a_response)]
   \<and> snd (handler env_log_fails an_event) =
       Returned \<lparr>statusCode = 401,
                 body = JSON_stringify env_log_fails
                          (MessageError ''Token is invalid'' ''Requested resource not found'')\<rparr>"
proof -
  have ad: "admitted env_deduct_fails an_event a_token"
    by (simp add: pred_defs env_deduct_fails_def env_ok_def an_event_def a_token_def
        js_lit_zero js_lt_def to_number_def)
  have up: "upstream_succeeds env_deduct_fails an_event a_response"
    by (simp add: upstream_succeeds_def env_deduct_fails_def env_ok_def)
  have put: "dynamoDB_put env_deduct_fails (logged_item env_deduct_fails a_token a_response)
               = None"
    by (simp add: env_deduct_fails_def env_ok_def)
  have upd: "dynamoDB_update env_deduct_fails (email a_token) (getTransactionPrice a_response)
               = Inl (Error ''Requested resource not found'')"
    by (simp add: env_deduct_fails_def)
  have ad': "admitted env_log_fails an_event a_token"
    by (simp add: pred_defs env_log_fails_def env_ok_def an_event_def a_token_def
        js_lit_zero js_lt_def to_number_def)
  have up': "upstream_succeeds env_log_fails an_event a_response"
    by (simp add: upstream_succeeds_def env_log_fails_def env_ok_def)
  have put': "dynamoDB_put env_log_fails (logged_item env_log_fails a_token a_response)
               = Some (Error ''Requested resource not found'')"
    by (simp add: env_log_fails_def)
  have first: "log_writes (fst (handler env_deduct_fails an_event))
       = [TransactionPut (logged_item env_deduct_fails a_token a_response)]
   \<and> ledger_updates (fst (handler env_deduct_fails an_event))
       = [BalanceUpdate (email a_token) (getTransactionPrice a_response)]
   \<and> store_writes (fst (handler env_deduct_fails an_event))
       = [TransactionPut (logged_item env_deduct_fails a_token a_response),
          BalanceUpdate (email a_token) (getTransactionPrice a_response)]"
    using one_log_write_then_one_deduction [OF ad up] put by simp
  have second: "log_writes (fst (handler env_log_fails an_event))
       = [TransactionPut (logged_item env_log_fails a_token a_response)]
   \<and> store_writes (fst (handler env_log_fails an_event))
       = [TransactionPut (logged_item env_log_fails a_token a_response)]
   \<and> snd (handler env_log_fails an_event) =
       Returned \<lparr>statusCode = 401,
                 body = JSON_stringify env_log_fails
                          (MessageError ''Token is invalid'' ''Requested resource not found'')\<rparr>"
    using one_log_write_then_one_deduction
            [OF ad' up', of "Error ''Requested resource not found''"] put'
    by simp
  from ad up upd first ad' up' put' second show ?thesis by blast
qed

text \<open>
  C8, as stated: on the path where every step succeeds the body of the result is the
  upstream response JSON verbatim. It is not: the handler parses the upstream data and
  serialises the parsed value again, so indented data come back without their white
  space. In this call the result has status 200 and its body differs from the data.
\<close>

theorem body_is_not_the_upstream_text:
  "admitted env_ok an_event a_token
   \<and> upstream_succeeds env_ok an_event a_response
   \<and> dynamoDB_put env_ok (logged_item env_ok a_token a_response) = None
   \<and> dynamoDB_update env_ok (email a_token) (getTransactionPrice a_response)
       = Inr \<lparr>Attributes = Some \<lparr>Balance = Some (Fin 9)\<rparr>\<rparr>
   \<and> https_request env_ok (event.body an_event) = Response 200 upstream_text
   \<and> snd (handler env_ok an_event) = Returned \<lparr>statusCode = 200, body = compact_text\<rparr>
   \<and> compact_text \<noteq> upstream_text"
proof -
  have "compact_text \<noteq> upstream_text"
    by (simp add: compact_text_def upstream_text_def)
  moreover have "snd (handler env_ok an_event)
                   = Returned \<lparr>statusCode = 200, body = compact_text\<rparr>"
    by (simp add: handler_def handler_try_def step_defs env_ok_def an_event_def a_token_def
        js_lit_zero js_lt_def to_number_def stringify_here_def)
  moreover have "admitted env_ok an_event a_token"
    by (simp add: pred_defs env_ok_def an_event_def a_token_def js_lit_zero js_lt_def
        to_number_def)
  ultimately show ?thesis
    by (simp add: upstream_succeeds_def env_ok_def)
qed

text \<open>
  C8, amended: when authentication and admission pass, the upstream invocation succeeds,
  the put of the transaction record succeeds and the deduction succeeds, the handler
  returns status 200, and the body is what \<open>JSON.stringify\<close> makes of the parsed
  upstream response, which the handler passes on unchanged. The body need not be the
  text the completion API sent.
\<close>

theorem success_returns_upstream_response:
  assumes "admitted env event idToken" and "upstream_succeeds env event response"
    and "dynamoDB_put env (logged_item env idToken response) = None"
    and "dynamoDB_update env (email idToken) (getTransactionPrice response) = Inr result"
    and "Attributes result \<noteq> None"
  shows "snd (handler env event) =
           Returned \<lparr>statusCode = 200, body = JSON_stringify env (Completion response)\<rparr>"
  using assms(3-5)
  by (auto simp: handler_def handler_try_upstream_done [OF assms(1,2)] deductUserBalance_def
      bind_io_def ret_def split: option.splits sum.splits completion.splits prod.splits)

theorem success_returns_upstream_response_witness:
  "admitted env_ok an_event a_token
   \<and> upstream_succeeds env_ok an_event a_response
   \<and> dynamoDB_put env_ok (logged_item env_ok a_token a_response) = None
   \<and> dynamoDB_update env_ok (email a_token) (getTransactionPrice a_response)
       = Inr \<lparr>Attributes = Some \<lparr>Balance = Some (Fin 9)\<rparr>\<rparr>
   \<and> Attributes \<lparr>Attributes = Some \<lparr>Balance = Some (Fin 9)\<rparr>\<rparr> \<noteq> None
   \<and> snd (handler env_ok an_event) =
       Returned \<lparr>statusCode = 200, body = JSON_stringify env_ok (Completion a_response)\<rparr>"
proof -
  have ad: "admitted env_ok an_event a_token"
    by (simp add: pred_defs env_ok_def an_event_def a_token_def js_lit_zero js_lt_def
        to_number_def)
  have up: "upstream_succeeds env_ok an_event a_response"
    by (simp add: upstream_succeeds_def env_ok_def)
  have put: "dynamoDB_put env_ok (logged_item env_ok a_token a_response) = None"
    by (simp add: env_ok_def)
  have upd: "dynamoDB_update env_ok (email a_token) (getTransactionPrice a_response)
               = Inr \<lparr>Attributes = Some \<lparr>Balance = Some (Fin 9)\<rparr>\<rparr>"
    by (simp add: env_ok_def)
  have at: "Attributes \<lparr>Attributes = Some \<lparr>Balance = Some (Fin 9)\<rparr>\<rparr> \<noteq> None"
    by simp
  from success_returns_upstream_response [OF ad up put upd at] ad up put upd at
  show ?thesis by simp
qed

text \<open>
  C10. For an authenticated subject whose account item exists, the handler returns
  status 402 exactly when the \<open>Balance\<close> of the item compares below zero. An item
  without a \<open>Balance\<close> attribute passes the check, and the call goes on to the upstream
  request.
\<close>

theorem denied_exactly_when_balance_below_zero:
  assumes "authenticated env event idToken" and "account_is env idToken (Some item)"
  shows "(status_of (snd (handler env event)) = Some 402 \<longleftrightarrow> js_lt (Balance item) (js_lit 0))
    \<and> (Balance item = None \<longrightarrow>
         upstream_calls (fst (handler env event)) = [UpstreamRequest (event.body event)])"
proof (cases "js_lt (Balance item) (js_lit 0)")
  case True
  then have "Balance item \<noteq> None"
    by (cases "Balance item") (simp_all add: js_lt_def to_number_def)
  with True handler_balance_below_zero [OF assms True] show ?thesis
    by (auto simp: returnHTTP_def)
next
  case False
  with assms have "admitted env event idToken"
    by (auto simp: admitted_def account_is_def split: sum.splits)
  with False admitted_not_402 [of env event idToken] show ?thesis by simp
qed

theorem denied_exactly_when_balance_below_zero_witness:
  "authenticated env_no_balance an_event a_token
   \<and> account_is env_no_balance a_token (Some \<lparr>Balance = None\<rparr>)
   \<and> \<not> js_lt None (js_lit 0)
   \<and> status_of (snd (handler env_no_balance an_event)) \<noteq> Some 402
   \<and> upstream_calls (fst (handler env_no_balance an_event)) = [UpstreamRequest request_text]"
proof -
  have au: "authenticated env_no_balance an_event a_token"
    by (simp add: pred_defs env_no_balance_def env_ok_def an_event_def a_token_def)
  have ac: "account_is env_no_balance a_token (Some \<lparr>Balance = None\<rparr>)"
    by (simp add: account_is_def env_no_balance_def env_ok_def)
  have lt: "\<not> js_lt None (js_lit 0)"
    by (simp add: js_lt_def to_number_def)
  have b: "event.body an_event = request_text"
    by (simp add: an_event_def)
  from denied_exactly_when_balance_below_zero [OF au ac] au ac lt b show ?thesis
    by simp
qed

text \<open>
  C3. Not every exception of the pipeline is answered with status 401. When the
  completion API answers with a status in \<open>200..299\<close> and data that are not JSON,
  \<open>JSON.parse\<close> throws inside the listener of \<open>end\<close>: the promise of
  \<open>makeOpenAIRequest\<close> is neither resolved nor rejected, the \<open>catch\<close> of the handler
  is not reached, and the handler returns no result.
\<close>

theorem unparsable_upstream_data_escapes:
  "handler env_unparsable an_event =
     ([TokenInfoRequest (Some ''abc''), AccountGet ''ann@example.org'', UpstreamRequest request_text],
      Escaped (Error ''Unexpected token < in JSON at position 0''))
   \<and> status_of (snd (handler env_unparsable an_event)) = None"
  by (simp add: handler_def handler_try_def step_defs env_unparsable_def env_ok_def
      an_event_def a_token_def js_lit_zero js_lt_def to_number_def)

end
